theory Spec2Isabelle
  imports Complex_Main
begin

section \<open>Settings (settings.py)\<close>

text \<open>
  The settings module is a set of global constants that the other modules read as
  \<open>stg.NAME\<close>. It is modelled as a record passed to every function that reads it, so
  that a configuration other than the shipped one can be stated. Colours, the caption
  and the background image only reach the renderer and are left out.
\<close>

record settings =
  WINDOW_WIDTH :: int
  WINDOW_HEIGHT :: int
  GLOBAL_FPS :: int
  GRID_SIZE :: int
  SNAKE_SPEED :: int
  SNAKE_INIT_LENGTH :: int

definition settings_py :: settings where
  "settings_py =
     \<lparr> WINDOW_WIDTH = 480, WINDOW_HEIGHT = 360, GLOBAL_FPS = 60, GRID_SIZE = 10,
       SNAKE_SPEED = 20, SNAKE_INIT_LENGTH = 0 \<rparr>"

text \<open>\<open>SNAKE_INIT_X = WINDOW_WIDTH // 5 // GRID_SIZE * GRID_SIZE\<close>; Python's \<open>//\<close> on
  integers is floor division, as \<open>div\<close> on \<open>int\<close> is. The division by a zero grid size
  is raised where the settings are loaded, see \<open>SnakeGame_init\<close>.\<close>

definition SNAKE_INIT_X :: "settings \<Rightarrow> int" where
  "SNAKE_INIT_X stg = WINDOW_WIDTH stg div 5 div GRID_SIZE stg * GRID_SIZE stg"

definition SNAKE_INIT_Y :: "settings \<Rightarrow> int" where
  "SNAKE_INIT_Y stg = WINDOW_HEIGHT stg div 2 div GRID_SIZE stg * GRID_SIZE stg"

text \<open>Key codes are opaque integers of the windowing library; the four values of
  \<open>stg.KEYS\<close> are the four named constructors, every other code is \<open>K_OTHER\<close>.\<close>

datatype key = K_UP | K_RIGHT | K_DOWN | K_LEFT | K_OTHER nat

definition KEYS_values :: "key list" where
  "KEYS_values = [K_LEFT, K_RIGHT, K_UP, K_DOWN]"

datatype error = IndexError | KeyError | ValueError | ZeroDivisionError | SystemExit

section \<open>Rectangles of the windowing library\<close>

text \<open>
  \<open>pygame.Rect\<close> with its integer fields. \<open>left = x\<close>, \<open>top = y\<close>, \<open>right = x + w\<close>,
  \<open>bottom = y + h\<close>; \<open>move\<close> returns the translated rectangle; \<open>colliderect\<close> is the
  library's intersection test, in which a rectangle of zero width or height collides
  with nothing and touching edges do not collide. Coordinates are taken as unbounded
  integers.
\<close>

record rect =
  rect_x :: int
  rect_y :: int
  rect_w :: int
  rect_h :: int

definition Rect :: "int \<Rightarrow> int \<Rightarrow> int \<Rightarrow> int \<Rightarrow> rect" where
  "Rect px py pw ph = \<lparr> rect_x = px, rect_y = py, rect_w = pw, rect_h = ph \<rparr>"

definition rect_left :: "rect \<Rightarrow> int" where "rect_left r = rect_x r"
definition rect_top :: "rect \<Rightarrow> int" where "rect_top r = rect_y r"
definition rect_right :: "rect \<Rightarrow> int" where "rect_right r = rect_x r + rect_w r"
definition rect_bottom :: "rect \<Rightarrow> int" where "rect_bottom r = rect_y r + rect_h r"

definition rect_move :: "rect \<Rightarrow> int \<Rightarrow> int \<Rightarrow> rect" where
  "rect_move r dx dy = r\<lparr> rect_x := rect_x r + dx, rect_y := rect_y r + dy \<rparr>"

definition colliderect :: "rect \<Rightarrow> rect \<Rightarrow> bool" where
  "colliderect a b =
     (if rect_w a = 0 \<or> rect_h a = 0 \<or> rect_w b = 0 \<or> rect_h b = 0 then False
      else min (rect_x a) (rect_x a + rect_w a) < max (rect_x b) (rect_x b + rect_w b)
         \<and> min (rect_y a) (rect_y a + rect_h a) < max (rect_y b) (rect_y b + rect_h b)
         \<and> max (rect_x a) (rect_x a + rect_w a) > min (rect_x b) (rect_x b + rect_w b)
         \<and> max (rect_y a) (rect_y a + rect_h a) > min (rect_y b) (rect_y b + rect_h b))"

section \<open>GameObject (game_objects.py)\<close>

text \<open>
  One record for every \<open>GameObject\<close>; the subclass is the field \<open>cls\<close>. The subclasses
  differ in \<open>draw\<close> only (and \<open>SnakeHead.handle\<close>, \<open>Apple.respawn\<close>), which is why
  the colour and the apple's unused \<open>lifespan\<close> are not modelled.
\<close>

datatype obj_class = Apple | SnakeHead | SnakeBody | SnakeTail

record game_object =
  cls :: obj_class
  bounds :: rect
  offset :: "int \<times> int"
  speed :: int
  direction :: int
  step_size :: int

text \<open>\<open>GameObject.__init__\<close> with the defaults \<open>w = h = step_size = stg.GRID_SIZE\<close>,
  which no caller in the repository overrides.\<close>

definition GameObject_init ::
  "settings \<Rightarrow> obj_class \<Rightarrow> int \<Rightarrow> int \<Rightarrow> int \<times> int \<Rightarrow> int \<Rightarrow> int \<Rightarrow> game_object" where
  "GameObject_init stg c px py off spd dir =
     \<lparr> cls = c, bounds = Rect px py (GRID_SIZE stg) (GRID_SIZE stg), offset = off,
       speed = spd, direction = dir, step_size = GRID_SIZE stg \<rparr>"

text \<open>
  \<open>get_velocity(direction, speed, step_size)\<close>. \<open>(-1) ** (direction % 3 == 0)\<close> raises
  \<open>-1\<close> to a boolean, that is to 1 or 0; \<open>round\<close> of an integer is the integer; \<open>%\<close>
  with a positive modulus is never negative, as \<open>mod\<close> on \<open>int\<close>.
\<close>

definition get_velocity :: "int \<Rightarrow> int \<Rightarrow> int \<Rightarrow> int \<times> int" where
  "get_velocity dir spd stp =
     (let dx = dir mod 2 * (- 1) ^ (if dir mod 3 = 0 then 1 else 0 :: nat) * stp;
          dy = (dir + 1) mod 2 * (- 1) ^ (if dir mod 3 = 0 then 1 else 0 :: nat) * stp
      in (dx, dy))"

definition GameObject_move :: "game_object \<Rightarrow> int \<Rightarrow> int \<Rightarrow> game_object" where
  "GameObject_move ob dx dy = ob\<lparr> bounds := rect_move (bounds ob) dx dy \<rparr>"

text \<open>\<open>GameObject.update(dt)\<close>: \<open>get_velocity\<close> is called without a step size, so the
  step is the default \<open>stg.GRID_SIZE\<close>; \<open>dt\<close> is not used.\<close>

definition GameObject_update :: "settings \<Rightarrow> real \<Rightarrow> game_object \<Rightarrow> game_object" where
  "GameObject_update stg dt ob =
     (if speed ob \<noteq> 0
      then (case get_velocity (direction ob) (speed ob) (GRID_SIZE stg) of
              (dx, dy) \<Rightarrow> GameObject_move ob dx dy)
      else ob)"

section \<open>Snake parts and the snake (game_objects.py)\<close>

text \<open>\<open>SnakePart.__init__\<close> passes its arguments on to \<open>GameObject.__init__\<close>; the
  three subclasses add no data.\<close>

definition SnakePart_init ::
  "settings \<Rightarrow> obj_class \<Rightarrow> int \<Rightarrow> int \<Rightarrow> int \<times> int \<Rightarrow> int \<Rightarrow> int \<Rightarrow> game_object" where
  "SnakePart_init stg c px py off spd dir = GameObject_init stg c px py off spd dir"

text \<open>The class attribute \<open>SnakeHead.DIRECTIONS\<close>, a dictionary from key codes to
  directions.\<close>

definition DIRECTIONS :: "key \<rightharpoonup> int" where
  "DIRECTIONS = [K_UP \<mapsto> 0, K_RIGHT \<mapsto> 1, K_DOWN \<mapsto> 2, K_LEFT \<mapsto> 3]"

text \<open>\<open>SnakeHead.handle(key)\<close>. In Python \<open>and\<close> binds tighter than \<open>or\<close>. The
  dictionary lookup raises \<open>KeyError\<close> on a key that is not bound.\<close>

definition SnakeHead_handle :: "key \<Rightarrow> game_object \<Rightarrow> error + game_object" where
  "SnakeHead_handle k ob =
     (if (k \<in> {K_LEFT, K_RIGHT} \<and> direction ob mod 2 \<noteq> 1)
         \<or> (k \<in> {K_UP, K_DOWN} \<and> direction ob mod 2 \<noteq> 0)
      then (case DIRECTIONS k of
              None \<Rightarrow> Inl KeyError
            | Some dir \<Rightarrow> Inr (ob\<lparr> direction := dir \<rparr>))
      else Inr ob)"

record snake =
  parts :: "game_object list"
  snake_offset :: "int \<times> int"
  snake_speed :: int
  time :: real
  got_apple :: bool

text \<open>\<open>list.insert(i, v)\<close> for \<open>i \<ge> 0\<close>: an index beyond the end appends.\<close>

definition list_insert :: "nat \<Rightarrow> 'a \<Rightarrow> 'a list \<Rightarrow> 'a list" where
  "list_insert i v xs = take i xs @ v # drop i xs"

text \<open>The loop \<open>for i in range(1, len(self.parts))\<close> of the constructor, which moves
  part \<open>i\<close> back by \<open>i\<close> times the velocity of the initial direction.\<close>

definition shift_part :: "settings \<Rightarrow> int \<Rightarrow> int \<Rightarrow> nat \<Rightarrow> game_object list \<Rightarrow> game_object list" where
  "shift_part stg dir spd i ps =
     (case get_velocity dir spd (GRID_SIZE stg) of
        (vx, vy) \<Rightarrow> ps[i := GameObject_move (ps ! i) (- vx * int i) (- vy * int i)])"

definition shift_body :: "settings \<Rightarrow> int \<Rightarrow> int \<Rightarrow> game_object list \<Rightarrow> game_object list" where
  "shift_body stg dir spd ps = fold (shift_part stg dir spd) [1 ..< length ps] ps"

text \<open>\<open>Snake.__init__\<close>. \<open>range(length)\<close> is empty for a negative \<open>length\<close>, as
  \<open>nat\<close> of a negative integer is 0. \<open>time\<close> is a Python float, modelled as a real
  number.\<close>

definition Snake_init ::
  "settings \<Rightarrow> int \<Rightarrow> int \<Rightarrow> int \<times> int \<Rightarrow> int \<Rightarrow> int \<Rightarrow> int \<Rightarrow> snake" where
  "Snake_init stg px py off spd dir len =
     (let ps0 = [SnakePart_init stg SnakeHead px py off spd dir,
                 SnakePart_init stg SnakeTail px py off spd dir];
          ps1 = ((list_insert 1 (SnakePart_init stg SnakeBody px py off spd dir)) ^^ nat len) ps0
      in \<lparr> parts = shift_body stg dir spd ps1, snake_offset = off, snake_speed = spd,
           time = 0, got_apple = False \<rparr>)"

text \<open>The loop of \<open>Snake.move\<close> over \<open>self.parts[1:]\<close>: each part swaps its position and
  direction with the temporaries, which hold what the part before it had.\<close>

fun follow :: "int \<Rightarrow> int \<Rightarrow> int \<Rightarrow> game_object list \<Rightarrow> game_object list" where
  "follow tmp_x tmp_y tmp_direction [] = []"
| "follow tmp_x tmp_y tmp_direction (part # ps) =
     part\<lparr> bounds := (bounds part)\<lparr> rect_x := tmp_x, rect_y := tmp_y \<rparr>,
           direction := tmp_direction \<rparr>
     # follow (rect_x (bounds part)) (rect_y (bounds part)) (direction part) ps"

text \<open>\<open>Snake.move(dt)\<close>; \<open>self.head\<close> is \<open>self.parts[0]\<close> and raises \<open>IndexError\<close> on an
  empty list.\<close>

definition Snake_move :: "settings \<Rightarrow> real \<Rightarrow> snake \<Rightarrow> error + snake" where
  "Snake_move stg dt s =
     (case parts s of
        [] \<Rightarrow> Inl IndexError
      | hd0 # _ \<Rightarrow>
          Inr (s\<lparr> parts := GameObject_update stg dt hd0
                    # follow (rect_x (bounds hd0)) (rect_y (bounds hd0)) (direction hd0)
                        (drop 1 (parts s)) \<rparr>))"

text \<open>\<open>Snake.grow(dt)\<close>: a new \<open>SnakeBody\<close> at the head's place is inserted at index 1,
  then the head is updated.\<close>

definition Snake_grow :: "settings \<Rightarrow> real \<Rightarrow> snake \<Rightarrow> error + snake" where
  "Snake_grow stg dt s =
     (case parts s of
        [] \<Rightarrow> Inl IndexError
      | hd0 # _ \<Rightarrow>
          (let body = SnakePart_init stg SnakeBody (rect_x (bounds hd0)) (rect_y (bounds hd0))
                        (snake_offset s) (speed hd0) (direction hd0)
           in case list_insert 1 body (parts s) of
                [] \<Rightarrow> Inl IndexError
              | hd1 # ps \<Rightarrow> Inr (s\<lparr> parts := GameObject_update stg dt hd1 # ps \<rparr>)))"

text \<open>\<open>Snake.update(dt)\<close>. \<open>1 / self.head.speed\<close> is Python's true division and raises
  \<open>ZeroDivisionError\<close> for speed 0 (in HOL \<open>1 / 0 = 0\<close>, so the check is written out).\<close>

definition Snake_update :: "settings \<Rightarrow> real \<Rightarrow> snake \<Rightarrow> error + snake" where
  "Snake_update stg dt s =
     (case parts s of
        [] \<Rightarrow> Inl IndexError
      | hd0 # _ \<Rightarrow>
          if speed hd0 = 0 then Inl ZeroDivisionError
          else if time s > 1 / real_of_int (speed hd0)
          then (if got_apple s
                then (case Snake_grow stg dt s of
                        Inl e \<Rightarrow> Inl e
                      | Inr s' \<Rightarrow> Inr (s'\<lparr> got_apple := False, time := 0 \<rparr>))
                else (case Snake_move stg dt s of
                        Inl e \<Rightarrow> Inl e
                      | Inr s' \<Rightarrow> Inr (s'\<lparr> time := 0 \<rparr>)))
          else Inr (s\<lparr> time := time s + dt \<rparr>))"

definition Snake_handle :: "key \<Rightarrow> snake \<Rightarrow> error + snake" where
  "Snake_handle k s =
     (case parts s of
        [] \<Rightarrow> Inl IndexError
      | hd0 # ps \<Rightarrow>
          (case SnakeHead_handle k hd0 of
             Inl e \<Rightarrow> Inl e
           | Inr hd1 \<Rightarrow> Inr (s\<lparr> parts := hd1 # ps \<rparr>)))"

text \<open>The self-collision loop of \<open>check_collision\<close>, with its early return.\<close>

fun head_hits :: "rect \<Rightarrow> game_object list \<Rightarrow> bool" where
  "head_hits r [] = False"
| "head_hits r (part # ps) = (if colliderect r (bounds part) then True else head_hits r ps)"

definition Snake_check_collision :: "snake \<Rightarrow> error + bool" where
  "Snake_check_collision s =
     (case parts s of
        [] \<Rightarrow> Inl IndexError
      | hd0 # _ \<Rightarrow>
          if rect_left (bounds hd0) < 0
             \<or> rect_right (bounds hd0) > fst (snake_offset s)
             \<or> rect_top (bounds hd0) < 0
             \<or> rect_bottom (bounds hd0) > snd (snake_offset s)
          then Inr True
          else Inr (head_hits (bounds hd0) (drop 1 (parts s))))"

text \<open>\<open>Snake.colliderect(rect)\<close>: every part, the head included, is tested.\<close>

fun Snake_colliderect_loop :: "game_object list \<Rightarrow> rect \<Rightarrow> bool" where
  "Snake_colliderect_loop [] r = False"
| "Snake_colliderect_loop (part # ps) r =
     (if colliderect (bounds part) r then True else Snake_colliderect_loop ps r)"

definition Snake_colliderect :: "snake \<Rightarrow> rect \<Rightarrow> bool" where
  "Snake_colliderect s r = Snake_colliderect_loop (parts s) r"

section \<open>The apple\<close>

text \<open>
  \<open>random.randrange(start, stop, step)\<close>. The random choice is the argument \<open>r\<close>:
  the library draws an index below the number \<open>n\<close> of elements of the range, here
  \<open>r mod n\<close>, so every element of the range is the result for some \<open>r\<close>. An empty
  range and a zero step raise \<open>ValueError\<close>.
\<close>

definition randrange :: "int \<Rightarrow> int \<Rightarrow> int \<Rightarrow> nat \<Rightarrow> error + int" where
  "randrange start stop step r =
     (if step = 0 then Inl ValueError
      else (let n = (if step > 0 then (stop - start + step - 1) div step
                     else (stop - start + step + 1) div step)
            in if n \<le> 0 then Inl ValueError
               else Inr (start + step * (int r mod n))))"

text \<open>\<open>Apple.__init__\<close>: speed and direction keep the defaults 0 and 2 of
  \<open>GameObject\<close>.\<close>

definition Apple_init :: "settings \<Rightarrow> int \<Rightarrow> int \<Rightarrow> int \<times> int \<Rightarrow> game_object" where
  "Apple_init stg px py off = GameObject_init stg Apple px py off 0 2"

text \<open>\<open>Apple.respawn()\<close>: two calls of \<open>randrange\<close> with the default step 1.\<close>

definition Apple_respawn :: "nat \<times> nat \<Rightarrow> game_object \<Rightarrow> error + game_object" where
  "Apple_respawn r ob =
     (case randrange 0 (fst (offset ob) - rect_w (bounds ob)) 1 (fst r) of
        Inl e \<Rightarrow> Inl e
      | Inr nx \<Rightarrow>
          (case randrange 0 (snd (offset ob) - rect_h (bounds ob)) 1 (snd r) of
             Inl e \<Rightarrow> Inl e
           | Inr ny \<Rightarrow> Inr (ob\<lparr> bounds := (bounds ob)\<lparr> rect_x := nx, rect_y := ny \<rparr> \<rparr>)))"

section \<open>The game (main.py)\<close>

text \<open>
  The state of a \<open>SnakeGame\<close>. \<open>self.objects\<close> is the list of the snake and the apple.
  The window, the clock and the fonts belong to the windowing library and are not
  modelled; \<open>Game.__init__\<close> only creates them.
\<close>

record game =
  game_over :: bool
  score :: int
  g_snake :: snake
  g_apple :: game_object

datatype event = QUIT | KEYDOWN key | KEYUP key | OTHER_EVENT nat

text \<open>A key-down handler is called with the key and changes the game; it may raise.
  \<open>keydown_handlers\<close> is a \<open>defaultdict(list)\<close>: a key without handlers has the empty
  list.\<close>

type_synonym 'g handler = "key \<Rightarrow> 'g \<Rightarrow> error + 'g"

fun run_handlers :: "'g handler list \<Rightarrow> key \<Rightarrow> 'g \<Rightarrow> error + 'g" where
  "run_handlers [] k g = Inr g"
| "run_handlers (h # hs) k g =
     (case h k g of Inl e \<Rightarrow> Inl e | Inr g' \<Rightarrow> run_handlers hs k g')"

text \<open>
  The loop of \<open>Game.handle_events\<close> over the events that \<open>pygame.event.get()\<close> returned.
  \<open>QUIT\<close> ends the process (\<open>sys.exit()\<close> raises \<open>SystemExit\<close>); a key-down event of
  a key in \<open>stg.KEYS.values()\<close> runs the handlers of the key and leaves the loop;
  every other event is skipped.
\<close>

fun events_loop :: "(key \<Rightarrow> 'g handler list) \<Rightarrow> event list \<Rightarrow> 'g \<Rightarrow> error + 'g" where
  "events_loop hs [] g = Inr g"
| "events_loop hs (QUIT # evs) g = Inl SystemExit"
| "events_loop hs (KEYDOWN k # evs) g =
     (if k \<in> set KEYS_values then run_handlers (hs k) k g else events_loop hs evs g)"
| "events_loop hs (ev # evs) g = events_loop hs evs g"

text \<open>\<open>Game.handle_events\<close> on the pending event queue \<open>q\<close>: \<open>pygame.event.get()\<close>
  takes all pending events off the queue, and \<open>pygame.event.clear()\<close> empties it
  again. The result is the game and the queue that is left.\<close>

definition Game_handle_events ::
  "(key \<Rightarrow> 'g handler list) \<Rightarrow> event list \<Rightarrow> 'g \<Rightarrow> error + ('g \<times> event list)" where
  "Game_handle_events hs q g =
     (case events_loop hs q g of Inl e \<Rightarrow> Inl e | Inr g' \<Rightarrow> Inr (g', []))"

text \<open>The handler \<open>self.snake.head.handle\<close> that \<open>SnakeGame.__init__\<close> registers for
  each of the four keys. The head object is the first element of \<open>snake.parts\<close> for
  the whole run: \<open>grow\<close> inserts behind it and nothing removes a part.\<close>

definition head_handler :: "game handler" where
  "head_handler k g =
     (case Snake_handle k (g_snake g) of
        Inl e \<Rightarrow> Inl e
      | Inr s' \<Rightarrow> Inr (g\<lparr> g_snake := s' \<rparr>))"

definition keydown_handlers :: "key \<Rightarrow> game handler list" where
  "keydown_handlers k = (if k \<in> {K_LEFT, K_RIGHT, K_UP, K_DOWN} then [head_handler] else [])"

text \<open>
  \<open>SnakeGame.__init__\<close>. \<open>settings.py\<close> divides by \<open>GRID_SIZE\<close> when it is loaded.
  The two random choices of the apple's first position are \<open>r1\<close> and \<open>r2\<close>.
\<close>

definition SnakeGame_init :: "settings \<Rightarrow> nat \<Rightarrow> nat \<Rightarrow> error + game" where
  "SnakeGame_init stg r1 r2 =
     (if GRID_SIZE stg = 0 then Inl ZeroDivisionError
      else (let off = (WINDOW_WIDTH stg, WINDOW_HEIGHT stg);
                s = Snake_init stg (SNAKE_INIT_X stg) (SNAKE_INIT_Y stg) off
                      (SNAKE_SPEED stg) 1 (SNAKE_INIT_LENGTH stg)
            in case randrange 0 (WINDOW_WIDTH stg - GRID_SIZE stg) (GRID_SIZE stg) r1 of
                 Inl e \<Rightarrow> Inl e
               | Inr ax \<Rightarrow>
                   (case randrange 0 (WINDOW_HEIGHT stg - GRID_SIZE stg) (GRID_SIZE stg) r2 of
                      Inl e \<Rightarrow> Inl e
                    | Inr ay \<Rightarrow>
                        Inr \<lparr> game_over = False, score = 0, g_snake = s,
                              g_apple = Apple_init stg ax ay off \<rparr>)))"

text \<open>
  The loop \<open>while self.snake.colliderect(self.apple.bounds): self.apple.respawn()\<close>
  of \<open>get_apple\<close>. It has no bound; the list \<open>rs\<close> holds the random choices of the
  successive calls of \<open>respawn\<close>, and the result is \<open>None\<close> when the loop is still
  running after the last of them.
\<close>

fun get_apple_loop :: "(nat \<times> nat) list \<Rightarrow> snake \<Rightarrow> game_object \<Rightarrow> (error + game_object) option" where
  "get_apple_loop [] s ob = (if Snake_colliderect s (bounds ob) then None else Some (Inr ob))"
| "get_apple_loop (r # rs) s ob =
     (if Snake_colliderect s (bounds ob)
      then (case Apple_respawn r ob of
              Inl e \<Rightarrow> Some (Inl e)
            | Inr ob' \<Rightarrow> get_apple_loop rs s ob')
      else Some (Inr ob))"

definition SnakeGame_get_apple :: "(nat \<times> nat) list \<Rightarrow> game \<Rightarrow> (error + game) option" where
  "SnakeGame_get_apple rs g =
     (case get_apple_loop rs (g_snake g) (g_apple g) of
        None \<Rightarrow> None
      | Some (Inl e) \<Rightarrow> Some (Inl e)
      | Some (Inr ob) \<Rightarrow>
          Some (Inr (g\<lparr> g_apple := ob, g_snake := (g_snake g)\<lparr> got_apple := True \<rparr>,
                        score := score g + 1 \<rparr>)))"

text \<open>\<open>Game.update(dt)\<close> of a \<open>SnakeGame\<close>: the objects are the snake, then the
  apple.\<close>

definition Game_update :: "settings \<Rightarrow> real \<Rightarrow> game \<Rightarrow> error + game" where
  "Game_update stg dt g =
     (case Snake_update stg dt (g_snake g) of
        Inl e \<Rightarrow> Inl e
      | Inr s' \<Rightarrow> Inr (g\<lparr> g_snake := s', g_apple := GameObject_update stg dt (g_apple g) \<rparr>))"

text \<open>\<open>check_apple_snake_collision\<close>: the only \<open>Apple\<close> among the objects is the
  apple.\<close>

definition check_apple_snake_collision :: "game \<Rightarrow> error + bool" where
  "check_apple_snake_collision g =
     (case parts (g_snake g) of
        [] \<Rightarrow> Inl IndexError
      | hd0 # _ \<Rightarrow> Inr (colliderect (bounds (g_apple g)) (bounds hd0)))"

text \<open>\<open>handle_collisions\<close>: the handler of a wall or self collision is \<open>finish\<close>, the
  handler of an apple collision is \<open>get_apple\<close>.\<close>

definition handle_collisions :: "(nat \<times> nat) list \<Rightarrow> game \<Rightarrow> (error + game) option" where
  "handle_collisions rs g =
     (case Snake_check_collision (g_snake g) of
        Inl e \<Rightarrow> Some (Inl e)
      | Inr hit \<Rightarrow>
          (let g1 = (if hit then g\<lparr> game_over := True \<rparr> else g)
           in case check_apple_snake_collision g1 of
                Inl e \<Rightarrow> Some (Inl e)
              | Inr eaten \<Rightarrow> if eaten then SnakeGame_get_apple rs g1 else Some (Inr g1)))"

text \<open>One pass of the loop of \<open>Game.run\<close> without the drawing: collisions, events
  of the queue \<open>q\<close>, update by \<open>dt\<close>.\<close>

definition Game_frame ::
  "settings \<Rightarrow> (nat \<times> nat) list \<Rightarrow> event list \<Rightarrow> real \<Rightarrow> game \<Rightarrow> (error + game) option" where
  "Game_frame stg rs q dt g =
     (case handle_collisions rs g of
        None \<Rightarrow> None
      | Some (Inl e) \<Rightarrow> Some (Inl e)
      | Some (Inr g1) \<Rightarrow>
          (case Game_handle_events keydown_handlers q g1 of
             Inl e \<Rightarrow> Some (Inl e)
           | Inr (g2, q') \<Rightarrow> Some (Game_update stg dt g2)))"

text \<open>
  The loop of \<open>Game.run\<close>, \<open>while not self.game_over\<close>. Each element of the list
  is what one pass receives from outside: the random choices for \<open>respawn\<close>, the
  pending events and the time \<open>dt\<close> since the last pass (0.1 in the first pass,
  then the time the clock reports). The result is the game when it is over or when the
  list is used up.
\<close>

fun Game_run ::
  "settings \<Rightarrow> ((nat \<times> nat) list \<times> event list \<times> real) list \<Rightarrow> game \<Rightarrow> (error + game) option" where
  "Game_run stg [] g = Some (Inr g)"
| "Game_run stg ((rs, q, dt) # fs) g =
     (if game_over g then Some (Inr g)
      else (case Game_frame stg rs q dt g of
              None \<Rightarrow> None
            | Some (Inl e) \<Rightarrow> Some (Inl e)
            | Some (Inr g') \<Rightarrow> Game_run stg fs g'))"

text \<open>The events that the loop of \<open>handle_events\<close> passes over: everything but
  \<open>QUIT\<close> and the key-down events of the four bound keys.\<close>

fun skipped :: "event \<Rightarrow> bool" where
  "skipped QUIT = False"
| "skipped (KEYDOWN k) = (k \<notin> set KEYS_values)"
| "skipped ev = True"

text \<open>Projections used to display states: position and direction of each part.\<close>

definition part_places :: "game_object list \<Rightarrow> (int \<times> int \<times> int) list" where
  "part_places ps = map (\<lambda>p. (rect_x (bounds p), rect_y (bounds p), direction p)) ps"

definition snake_places :: "snake \<Rightarrow> (int \<times> int \<times> int) list" where
  "snake_places s = part_places (parts s)"

section \<open>Sequences of head updates and move steps\<close>




text \<open>The directions as the specification names them, and what it calls
  perpendicular and opposite.\<close>

definition UP :: int where "UP = 0"
definition RIGHT :: int where "RIGHT = 1"
definition DOWN :: int where "DOWN = 2"
definition LEFT :: int where "LEFT = 3"

definition vertical :: "int \<Rightarrow> bool" where
  "vertical dir = (dir = UP \<or> dir = DOWN)"

definition horizontal :: "int \<Rightarrow> bool" where
  "horizontal dir = (dir = LEFT \<or> dir = RIGHT)"

definition perpendicular :: "int \<Rightarrow> int \<Rightarrow> bool" where
  "perpendicular a b = ((vertical a \<and> horizontal b) \<or> (horizontal a \<and> vertical b))"



text \<open>A box is grid-aligned when its corner is a multiple of the grid size in both
  coordinates.\<close>

definition grid_aligned :: "settings \<Rightarrow> rect \<Rightarrow> bool" where
  "grid_aligned stg r = (rect_x r mod GRID_SIZE stg = 0 \<and> rect_y r mod GRID_SIZE stg = 0)"

section \<open>Example states\<close>

text \<open>A snake that has just turned: the head at (40, 40) and the body segment at
  (40, 50) head UP, the tail at (30, 50) still heads RIGHT.\<close>

definition bent_head :: game_object where
  "bent_head = SnakePart_init settings_py SnakeHead 40 40 (480, 360) 20 0"

definition bent_rest :: "game_object list" where
  "bent_rest = [SnakePart_init settings_py SnakeBody 40 50 (480, 360) 20 0,
                SnakePart_init settings_py SnakeTail 30 50 (480, 360) 20 1]"

definition bent_snake :: snake where
  "bent_snake =
     \<lparr> parts = bent_head # bent_rest, snake_offset = (480, 360), snake_speed = 20,
       time = 0, got_apple = False \<rparr>"

text \<open>A straight snake heading RIGHT with one body segment, as \<open>Snake\<close> builds it,
  and a game with this snake and the apple away from it.\<close>

definition right_snake :: snake where
  "right_snake = Snake_init settings_py 40 40 (480, 360) 20 1 1"

definition right_game :: game where
  "right_game =
     \<lparr> game_over = False, score = 0, g_snake = right_snake,
       g_apple = Apple_init settings_py 200 200 (480, 360) \<rparr>"

text \<open>The shipped settings with the snake speed set to 0.\<close>

definition zero_speed_settings :: settings where
  "zero_speed_settings = settings_py\<lparr> SNAKE_SPEED := 0 \<rparr>"

text \<open>A handler table on a log of the keys that reached a handler: every key has one
  handler, which appends the key.\<close>

definition log_handlers :: "key \<Rightarrow> key list handler list" where
  "log_handlers k = [\<lambda>k' keys. Inr (keys @ [k'])]"



text \<open>A head that heads RIGHT.\<close>

definition right_head :: game_object where
  "right_head = SnakePart_init settings_py SnakeHead 40 40 (480, 360) 20 1"

text \<open>A snake whose head lies on its tail.\<close>

definition knotted_head :: game_object where
  "knotted_head = SnakePart_init settings_py SnakeHead 30 40 (480, 360) 20 3"

definition knotted_rest :: "game_object list" where
  "knotted_rest = [SnakePart_init settings_py SnakeBody 40 40 (480, 360) 20 3,
                   SnakePart_init settings_py SnakeTail 30 40 (480, 360) 20 1]"

definition knotted_snake :: snake where
  "knotted_snake =
     \<lparr> parts = knotted_head # knotted_rest, snake_offset = (480, 360), snake_speed = 20,
       time = 0, got_apple = False \<rparr>"

text \<open>The game \<open>right_game\<close> with the apple under the head of the snake.\<close>

definition eaten_game :: game where
  "eaten_game = right_game\<lparr> g_apple := Apple_init settings_py 40 40 (480, 360) \<rparr>"

text \<open>A snake built with speed 0.\<close>

definition static_snake :: snake where
  "static_snake = Snake_init settings_py 40 40 (480, 360) 0 1 0"

section \<open>Lemmas on the loops\<close>

lemma follow_length: "length (follow tx ty td ps) = length ps"
  by (induction ps arbitrary: tx ty td) simp_all

lemma follow_nth:
  "i < length ps \<Longrightarrow>
   rect_x (bounds (follow (rect_x (bounds p)) (rect_y (bounds p)) (direction p) ps ! i))
     = rect_x (bounds ((p # ps) ! i)) \<and>
   rect_y (bounds (follow (rect_x (bounds p)) (rect_y (bounds p)) (direction p) ps ! i))
     = rect_y (bounds ((p # ps) ! i)) \<and>
   direction (follow (rect_x (bounds p)) (rect_y (bounds p)) (direction p) ps ! i)
     = direction ((p # ps) ! i)"
proof (induction ps arbitrary: p i)
  case Nil
  then show ?case by simp
next
  case (Cons q qs)
  show ?case
  proof (cases i)
    case 0
    then show ?thesis by simp
  next
    case (Suc j)
    with Cons.prems have "j < length qs" by simp
    from Cons.IH [OF this, of q] Suc show ?thesis by simp
  qed
qed

lemma insert_bodies:
  "((list_insert 1 b) ^^ n) [h, t] = h # replicate n b @ [t]"
  by (induction n) (simp_all add: list_insert_def)

lemma fold_update_length:
  "length (fold (\<lambda>i qs. qs[i := f i (qs ! i)]) is ps) = length ps"
  by (induction "is" arbitrary: ps) simp_all

lemma fold_update_nth:
  "j < length ps \<Longrightarrow>
   fold (\<lambda>i qs. qs[i := f i (qs ! i)]) [a ..< b] ps ! j =
     (if a \<le> j \<and> j < b then f j (ps ! j) else ps ! j)"
proof (induction b arbitrary: j)
  case 0
  then show ?case by simp
next
  case (Suc b)
  let ?F = "fold (\<lambda>i qs. qs[i := f i (qs ! i)]) [a ..< b] ps"
  show ?case
  proof (cases "a \<le> b")
    case True
    then have unroll: "fold (\<lambda>i qs. qs[i := f i (qs ! i)]) [a ..< Suc b] ps = ?F[b := f b (?F ! b)]"
      by simp
    show ?thesis
    proof (cases "j = b")
      case True
      with Suc.prems have "?F ! b = ps ! b"
        using Suc.IH [of b] by simp
      with True Suc.prems \<open>a \<le> b\<close> show ?thesis
        unfolding unroll by (simp add: fold_update_length)
    next
      case False
      with Suc.prems show ?thesis
        unfolding unroll using Suc.IH [of j] by (auto simp: fold_update_length)
    qed
  next
    case False
    then show ?thesis by auto
  qed
qed

lemma shift_part_eq:
  "shift_part stg dir spd =
     (\<lambda>i qs. qs[i := GameObject_move (qs ! i)
                       (- fst (get_velocity dir spd (GRID_SIZE stg)) * int i)
                       (- snd (get_velocity dir spd (GRID_SIZE stg)) * int i)])"
  by (rule ext, rule ext) (simp add: shift_part_def split: prod.splits)

lemma shift_body_length: "length (shift_body stg dir spd ps) = length ps"
  unfolding shift_body_def shift_part_eq by (rule fold_update_length)

lemma shift_body_nth:
  "j < length ps \<Longrightarrow>
   shift_body stg dir spd ps ! j =
     (if 1 \<le> j then GameObject_move (ps ! j)
                       (- fst (get_velocity dir spd (GRID_SIZE stg)) * int j)
                       (- snd (get_velocity dir spd (GRID_SIZE stg)) * int j)
      else ps ! j)"
  unfolding shift_body_def shift_part_eq by (subst fold_update_nth) simp_all

lemma Snake_init_parts:
  "parts (Snake_init stg px py off spd dir len) =
     shift_body stg dir spd
       (SnakePart_init stg SnakeHead px py off spd dir
        # replicate (nat len) (SnakePart_init stg SnakeBody px py off spd dir)
        @ [SnakePart_init stg SnakeTail px py off spd dir])"
  unfolding Snake_init_def Let_def insert_bodies by simp

lemma Snake_init_length:
  "length (parts (Snake_init stg px py off spd dir len)) = nat len + 2"
  by (simp add: Snake_init_parts shift_body_length)

lemma Snake_init_head:
  "parts (Snake_init stg px py off spd dir len) ! 0 = SnakePart_init stg SnakeHead px py off spd dir"
  by (simp add: Snake_init_parts shift_body_nth)

lemma bodies_bounds:
  "j < Suc (Suc n) \<Longrightarrow>
   bounds ((SnakePart_init stg c0 px py off spd dir
            # replicate n (SnakePart_init stg c1 px py off spd dir)
            @ [SnakePart_init stg c2 px py off spd dir]) ! j)
     = Rect px py (GRID_SIZE stg) (GRID_SIZE stg)"
  by (cases j) (auto simp: nth_append SnakePart_init_def GameObject_init_def nth_Cons')

lemma Snake_init_bounds:
  assumes "1 \<le> j" "j < nat len + 2"
  shows "bounds (parts (Snake_init stg px py off spd dir len) ! j) =
           Rect (px - fst (get_velocity dir spd (GRID_SIZE stg)) * int j)
                (py - snd (get_velocity dir spd (GRID_SIZE stg)) * int j)
                (GRID_SIZE stg) (GRID_SIZE stg)"
proof -
  let ?ps = "SnakePart_init stg SnakeHead px py off spd dir
        # replicate (nat len) (SnakePart_init stg SnakeBody px py off spd dir)
        @ [SnakePart_init stg SnakeTail px py off spd dir]"
  have len: "j < length ?ps" using assms by simp
  have b: "bounds (?ps ! j) = Rect px py (GRID_SIZE stg) (GRID_SIZE stg)"
    by (rule bodies_bounds) (use assms in simp)
  have "parts (Snake_init stg px py off spd dir len) ! j =
          GameObject_move (?ps ! j)
            (- fst (get_velocity dir spd (GRID_SIZE stg)) * int j)
            (- snd (get_velocity dir spd (GRID_SIZE stg)) * int j)"
    unfolding Snake_init_parts using assms(1) by (subst shift_body_nth [OF len]) simp
  then show ?thesis
    by (simp add: b GameObject_move_def rect_move_def Rect_def)
qed

lemma get_velocity_one_step:
  "\<bar>fst (get_velocity dir spd stp)\<bar> + \<bar>snd (get_velocity dir spd stp)\<bar> = \<bar>stp\<bar> \<and>
   (fst (get_velocity dir spd stp) = 0 \<or> snd (get_velocity dir spd stp) = 0)"
  unfolding get_velocity_def Let_def
  by (cases "dir mod 2 = 0") (auto simp: abs_mult mod_2_eq_odd)

lemma no_overlap_shifted:
  assumes g: "0 < g" and j: "1 \<le> j"
    and v: "\<bar>vx\<bar> + \<bar>vy\<bar> = g" "vx = 0 \<or> vy = 0"
  shows "\<not> colliderect (Rect px py g g) (Rect (px - vx * int j) (py - vy * int j) g g)"
proof -
  from v have "\<bar>vx\<bar> = g \<or> \<bar>vy\<bar> = g" by auto
  moreover have "g \<le> g * int j" using g j by simp
  ultimately have "g \<le> \<bar>vx * int j\<bar> \<or> g \<le> \<bar>vy * int j\<bar>"
    by (auto simp: abs_mult)
  then show ?thesis
    using g by (auto simp: colliderect_def Rect_def)
qed

lemma head_hits_iff:
  "head_hits r ps = (\<exists>i < length ps. colliderect r (bounds (ps ! i)))"
proof (induction ps)
  case Nil
  then show ?case by simp
next
  case (Cons p ps)
  show ?case
    by (auto simp: Cons.IH less_Suc_eq_0_disj)
qed

lemma head_hits_drop:
  "parts s = hd0 # rest \<Longrightarrow>
   head_hits r (drop 1 (parts s)) =
     (\<exists>i. 1 \<le> i \<and> i < length (parts s) \<and> colliderect r (bounds (parts s ! i)))"
proof -
  assume p: "parts s = hd0 # rest"
  have "(\<exists>j < length rest. colliderect r (bounds (rest ! j))) =
        (\<exists>i. 1 \<le> i \<and> i < Suc (length rest) \<and> colliderect r (bounds ((hd0 # rest) ! i)))"
  proof
    assume "\<exists>j < length rest. colliderect r (bounds (rest ! j))"
    then obtain j where "j < length rest" "colliderect r (bounds (rest ! j))" by blast
    then show "\<exists>i. 1 \<le> i \<and> i < Suc (length rest) \<and> colliderect r (bounds ((hd0 # rest) ! i))"
      by (intro exI [of _ "Suc j"]) simp
  next
    assume "\<exists>i. 1 \<le> i \<and> i < Suc (length rest) \<and> colliderect r (bounds ((hd0 # rest) ! i))"
    then obtain i where i: "1 \<le> i" "i < Suc (length rest)"
      "colliderect r (bounds ((hd0 # rest) ! i))" by blast
    then obtain j where "i = Suc j" by (cases i) auto
    with i show "\<exists>j < length rest. colliderect r (bounds (rest ! j))"
      by (intro exI [of _ j]) simp
  qed
  then show ?thesis using p by (simp add: head_hits_iff)
qed

lemma Snake_init_no_self_hit:
  assumes g: "0 < GRID_SIZE stg"
  shows "\<not> head_hits (Rect px py (GRID_SIZE stg) (GRID_SIZE stg))
            (drop 1 (parts (Snake_init stg px py off spd dir len)))"
proof -
  let ?s = "Snake_init stg px py off spd dir len"
  have "\<not> colliderect (Rect px py (GRID_SIZE stg) (GRID_SIZE stg)) (bounds (drop 1 (parts ?s) ! i))"
    if "i < length (drop 1 (parts ?s))" for i
  proof -
    from that have i: "1 \<le> Suc i" "Suc i < nat len + 2"
      by (simp_all add: Snake_init_length)
    have "drop 1 (parts ?s) ! i = parts ?s ! Suc i"
      using that by simp
    then show ?thesis
      using Snake_init_bounds [OF i, of stg px py off spd dir]
        no_overlap_shifted [OF g i(1), of "fst (get_velocity dir spd (GRID_SIZE stg))"
          "snd (get_velocity dir spd (GRID_SIZE stg))" px py]
        get_velocity_one_step [of dir spd "GRID_SIZE stg"] g
      by simp
  qed
  then show ?thesis by (simp only: head_hits_iff) blast
qed

section \<open>Properties\<close>

text \<open>
  C7. For the four directions 0 = UP, 1 = RIGHT, 2 = DOWN, 3 = LEFT, every speed and
  every magnitude \<open>m\<close>, \<open>get_velocity\<close> returns UP \<open>(0, -m)\<close>, RIGHT \<open>(m, 0)\<close>,
  DOWN \<open>(0, m)\<close>, LEFT \<open>(-m, 0)\<close>: the horizontal component is nonzero for RIGHT and
  LEFT only, the vertical one for UP and DOWN only, the sign is flipped for UP and LEFT
  (the directions whose index is 0 modulo 3), and the result does not depend on the
  speed argument.
\<close>

theorem get_velocity_table:
  "get_velocity UP spd m = (0, - m) \<and>
   get_velocity RIGHT spd m = (m, 0) \<and>
   get_velocity DOWN spd m = (0, m) \<and>
   get_velocity LEFT spd m = (- m, 0) \<and>
   get_velocity dir spd m = get_velocity dir spd' m"
  by (simp add: get_velocity_def UP_def RIGHT_def DOWN_def LEFT_def)

theorem get_velocity_table_witness:
  "get_velocity UP 20 10 = (0, - 10) \<and>
   get_velocity RIGHT 20 10 = (10, 0) \<and>
   get_velocity DOWN 20 10 = (0, 10) \<and>
   get_velocity LEFT 20 10 = (- 10, 0) \<and>
   get_velocity 3 20 10 = get_velocity 3 0 10"
  using get_velocity_table [of 20 10 3 0] by simp

text \<open>
  C1, as stated, at a snake of speed 0: \<open>GameObject.update\<close> moves an object only
  if its speed is not 0, so the head of the snake built with speed 0 stays at (40, 40)
  instead of advancing to (50, 40), and the tail moves onto it.
\<close>

theorem Snake_move_static_counterexample:
  "snake_places static_snake = [(40, 40, 1), (30, 40, 1)] \<and>
   map_sum id snake_places (Snake_move settings_py (1 / 10) static_snake)
     = Inr [(40, 40, 1), (40, 40, 1)]"
  unfolding static_snake_def by code_simp

text \<open>
  C1 (amended). For every snake with parts \<open>p0 .. pn\<close> whose head \<open>p0\<close> has a speed
  other than 0, \<open>Snake.move\<close> returns; the head keeps its direction and its box is
  translated by the velocity of that direction, one step of \<open>GRID_SIZE\<close> pixels along
  one axis; and every part \<open>i \<ge> 1\<close> ends with the position and the direction that
  part \<open>i - 1\<close> had before the call.
\<close>

theorem Snake_move_follow_the_leader:
  assumes "parts s = hd0 # rest" and "speed hd0 \<noteq> 0"
  shows "\<exists>s'. Snake_move stg dt s = Inr s' \<and>
           length (parts s') = length (parts s) \<and>
           bounds (parts s' ! 0) =
             rect_move (bounds hd0)
               (fst (get_velocity (direction hd0) (speed hd0) (GRID_SIZE stg)))
               (snd (get_velocity (direction hd0) (speed hd0) (GRID_SIZE stg))) \<and>
           \<bar>fst (get_velocity (direction hd0) (speed hd0) (GRID_SIZE stg))\<bar>
             + \<bar>snd (get_velocity (direction hd0) (speed hd0) (GRID_SIZE stg))\<bar>
             = \<bar>GRID_SIZE stg\<bar> \<and>
           direction (parts s' ! 0) = direction hd0 \<and>
           (\<forall>i. 1 \<le> i \<and> i < length (parts s) \<longrightarrow>
              rect_x (bounds (parts s' ! i)) = rect_x (bounds (parts s ! (i - 1))) \<and>
              rect_y (bounds (parts s' ! i)) = rect_y (bounds (parts s ! (i - 1))) \<and>
              direction (parts s' ! i) = direction (parts s ! (i - 1)))"
proof -
  let ?f = "follow (rect_x (bounds hd0)) (rect_y (bounds hd0)) (direction hd0) rest"
  let ?s' = "s\<lparr> parts := GameObject_update stg dt hd0 # ?f \<rparr>"
  have m: "Snake_move stg dt s = Inr ?s'"
    using assms(1) by (simp add: Snake_move_def)
  have hb: "bounds (GameObject_update stg dt hd0) =
             rect_move (bounds hd0)
               (fst (get_velocity (direction hd0) (speed hd0) (GRID_SIZE stg)))
               (snd (get_velocity (direction hd0) (speed hd0) (GRID_SIZE stg)))"
    using assms(2) by (simp add: GameObject_update_def GameObject_move_def split: prod.splits)
  have hd: "direction (GameObject_update stg dt hd0) = direction hd0"
    by (simp add: GameObject_update_def GameObject_move_def split: prod.splits)
  have tail: "rect_x (bounds (parts ?s' ! i)) = rect_x (bounds (parts s ! (i - 1))) \<and>
              rect_y (bounds (parts ?s' ! i)) = rect_y (bounds (parts s ! (i - 1))) \<and>
              direction (parts ?s' ! i) = direction (parts s ! (i - 1))"
    if "1 \<le> i" "i < length (parts s)" for i
  proof -
    from that obtain j where j: "i = Suc j" "j < length rest"
      using assms(1) by (cases i) auto
    from follow_nth [OF j(2), of hd0] show ?thesis
      using j assms(1) by simp
  qed
  show ?thesis
    using m hb hd tail get_velocity_one_step [of "direction hd0" "speed hd0" "GRID_SIZE stg"]
    by (intro exI [of _ ?s']) (simp add: follow_length assms(1))
qed

theorem Snake_move_follow_the_leader_witness:
  "parts bent_snake = bent_head # bent_rest \<and> speed bent_head \<noteq> 0 \<and>
   (\<exists>s'. Snake_move settings_py (1 / 60) bent_snake = Inr s' \<and>
      length (parts s') = 3 \<and>
      bounds (parts s' ! 0) = Rect 40 30 10 10 \<and> direction (parts s' ! 0) = UP \<and>
      rect_x (bounds (parts s' ! 1)) = 40 \<and> rect_y (bounds (parts s' ! 1)) = 40 \<and>
      direction (parts s' ! 1) = UP \<and>
      rect_x (bounds (parts s' ! 2)) = 40 \<and> rect_y (bounds (parts s' ! 2)) = 50 \<and>
      direction (parts s' ! 2) = UP)"
proof -
  have p: "parts bent_snake = bent_head # bent_rest"
    by (simp add: bent_snake_def)
  have sp: "speed bent_head \<noteq> 0"
    by (simp add: bent_head_def SnakePart_init_def GameObject_init_def)
  from Snake_move_follow_the_leader [OF p sp, of settings_py "1 / 60"]
  obtain s' where s': "Snake_move settings_py (1 / 60) bent_snake = Inr s'"
    and len: "length (parts s') = length (parts bent_snake)"
    and hb: "bounds (parts s' ! 0) =
               rect_move (bounds bent_head)
                 (fst (get_velocity (direction bent_head) (speed bent_head) (GRID_SIZE settings_py)))
                 (snd (get_velocity (direction bent_head) (speed bent_head) (GRID_SIZE settings_py)))"
    and hd: "direction (parts s' ! 0) = direction bent_head"
    and tl: "\<forall>i. 1 \<le> i \<and> i < length (parts bent_snake) \<longrightarrow>
              rect_x (bounds (parts s' ! i)) = rect_x (bounds (parts bent_snake ! (i - 1))) \<and>
              rect_y (bounds (parts s' ! i)) = rect_y (bounds (parts bent_snake ! (i - 1))) \<and>
              direction (parts s' ! i) = direction (parts bent_snake ! (i - 1))"
    by blast
  have l3: "length (parts bent_snake) = 3"
    by (simp add: bent_snake_def bent_rest_def)
  from tl [rule_format, of 1] tl [rule_format, of 2] l3
  have rest: "rect_x (bounds (parts s' ! 1)) = 40 \<and> rect_y (bounds (parts s' ! 1)) = 40 \<and>
      direction (parts s' ! 1) = UP \<and>
      rect_x (bounds (parts s' ! 2)) = 40 \<and> rect_y (bounds (parts s' ! 2)) = 50 \<and>
      direction (parts s' ! 2) = UP"
    by (simp add: bent_snake_def bent_rest_def bent_head_def SnakePart_init_def
          GameObject_init_def Rect_def UP_def)
  have head: "bounds (parts s' ! 0) = Rect 40 30 10 10 \<and> direction (parts s' ! 0) = UP"
    using hb hd
    by (simp add: bent_head_def SnakePart_init_def GameObject_init_def Rect_def UP_def
          settings_py_def get_velocity_def rect_move_def)
  show ?thesis
    using p sp s' len l3 rest head by auto
qed



text \<open>
  C2. For every snake state, \<open>check_collision\<close> returns true exactly if the head's box
  leaves the playfield (\<open>left < 0\<close>, \<open>right > width\<close>, \<open>top < 0\<close> or
  \<open>bottom > height\<close>) or overlaps the box of a part of index 1 or more; and it
  returns false for a snake just built, of any length, with a positive grid size and
  the head's box inside the playfield.
\<close>

theorem Snake_check_collision_iff:
  "(parts s = hd0 # rest \<longrightarrow>
      Snake_check_collision s =
        Inr (rect_left (bounds hd0) < 0 \<or> rect_right (bounds hd0) > fst (snake_offset s)
             \<or> rect_top (bounds hd0) < 0 \<or> rect_bottom (bounds hd0) > snd (snake_offset s)
             \<or> (\<exists>i. 1 \<le> i \<and> i < length (parts s)
                    \<and> colliderect (bounds hd0) (bounds (parts s ! i))))) \<and>
   (0 < GRID_SIZE stg \<and> 0 \<le> px \<and> px + GRID_SIZE stg \<le> fst off
      \<and> 0 \<le> py \<and> py + GRID_SIZE stg \<le> snd off \<longrightarrow>
      Snake_check_collision (Snake_init stg px py off spd dir len) = Inr False)"
proof (intro conjI impI)
  assume p: "parts s = hd0 # rest"
  show "Snake_check_collision s =
        Inr (rect_left (bounds hd0) < 0 \<or> rect_right (bounds hd0) > fst (snake_offset s)
             \<or> rect_top (bounds hd0) < 0 \<or> rect_bottom (bounds hd0) > snd (snake_offset s)
             \<or> (\<exists>i. 1 \<le> i \<and> i < length (parts s)
                    \<and> colliderect (bounds hd0) (bounds (parts s ! i))))"
    using head_hits_drop [OF p, of "bounds hd0"] p
    by (simp add: Snake_check_collision_def)
next
  assume a: "0 < GRID_SIZE stg \<and> 0 \<le> px \<and> px + GRID_SIZE stg \<le> fst off
      \<and> 0 \<le> py \<and> py + GRID_SIZE stg \<le> snd off"
  let ?s = "Snake_init stg px py off spd dir len"
  let ?h = "SnakePart_init stg SnakeHead px py off spd dir"
  have "length (parts ?s) = nat len + 2" by (rule Snake_init_length)
  then obtain h0 r0 where hr: "parts ?s = h0 # r0" by (cases "parts ?s") auto
  have "h0 = ?h" using Snake_init_head [of stg px py off spd dir len] hr by simp
  then have hb: "bounds h0 = Rect px py (GRID_SIZE stg) (GRID_SIZE stg)"
    by (simp add: SnakePart_init_def GameObject_init_def)
  have off: "snake_offset ?s = off" by (simp add: Snake_init_def Let_def)
  from a Snake_init_no_self_hit [of stg px py off spd dir len]
  show "Snake_check_collision ?s = Inr False"
    by (simp add: Snake_check_collision_def hr hb off rect_left_def rect_right_def
          rect_top_def rect_bottom_def Rect_def)
qed


theorem Snake_check_collision_iff_witness:
  "parts knotted_snake = knotted_head # knotted_rest \<and>
   Snake_check_collision knotted_snake = Inr True \<and>
   parts bent_snake = bent_head # bent_rest \<and>
   Snake_check_collision bent_snake = Inr False \<and>
   0 < GRID_SIZE settings_py \<and> (0::int) \<le> 90 \<and> 90 + GRID_SIZE settings_py \<le> fst (480, 360) \<and>
   (0::int) \<le> 180 \<and> 180 + GRID_SIZE settings_py \<le> snd (480, 360) \<and>
   Snake_check_collision (Snake_init settings_py 90 180 (480, 360) 20 1 0) = Inr False"
proof -
  have pk: "parts knotted_snake = knotted_head # knotted_rest"
    by (simp add: knotted_snake_def)
  have pb: "parts bent_snake = bent_head # bent_rest"
    by (simp add: bent_snake_def)
  have hit: "\<exists>i. 1 \<le> i \<and> i < length (parts knotted_snake)
               \<and> colliderect (bounds knotted_head) (bounds (parts knotted_snake ! i))"
    by (intro exI [of _ 2])
       (simp add: knotted_snake_def knotted_rest_def knotted_head_def SnakePart_init_def
          GameObject_init_def Rect_def colliderect_def settings_py_def)
  have k: "Snake_check_collision knotted_snake = Inr True"
    using Snake_check_collision_iff [THEN conjunct1, rule_format, OF pk] hit by simp
  have nohit: "\<not> (\<exists>i. 1 \<le> i \<and> i < length (parts bent_snake)
               \<and> colliderect (bounds bent_head) (bounds (parts bent_snake ! i)))"
  proof
    assume "\<exists>i. 1 \<le> i \<and> i < length (parts bent_snake)
               \<and> colliderect (bounds bent_head) (bounds (parts bent_snake ! i))"
    then obtain i where i: "1 \<le> i" "i < 3"
      "colliderect (bounds bent_head) (bounds (parts bent_snake ! i))"
      by (auto simp: bent_snake_def bent_rest_def)
    then have "i = 1 \<or> i = 2" by auto
    with i(3) show False
      by (auto simp: bent_snake_def bent_rest_def bent_head_def SnakePart_init_def
          GameObject_init_def Rect_def colliderect_def settings_py_def)
  qed
  have b: "Snake_check_collision bent_snake = Inr False"
    using Snake_check_collision_iff [THEN conjunct1, rule_format, OF pb] nohit
    by (simp add: bent_snake_def bent_head_def SnakePart_init_def GameObject_init_def Rect_def
          rect_left_def rect_right_def rect_top_def rect_bottom_def settings_py_def)
  have g: "0 < GRID_SIZE settings_py \<and> (0::int) \<le> 90 \<and> 90 + GRID_SIZE settings_py \<le> fst (480, 360) \<and>
   (0::int) \<le> 180 \<and> 180 + GRID_SIZE settings_py \<le> snd (480, 360)"
    by (simp add: settings_py_def)
  from Snake_check_collision_iff [THEN conjunct2, rule_format, OF g]
  have f: "Snake_check_collision (Snake_init settings_py 90 180 (480, 360) 20 1 0) = Inr False" .
  show ?thesis using pk k pb b g f by simp
qed






lemma DIRECTIONS_cases:
  "DIRECTIONS k = Some dir \<longleftrightarrow>
     (k = K_UP \<and> dir = 0) \<or> (k = K_RIGHT \<and> dir = 1) \<or> (k = K_DOWN \<and> dir = 2)
     \<or> (k = K_LEFT \<and> dir = 3)"
  by (cases k) (auto simp: DIRECTIONS_def)

lemma vertical_values: "vertical 0 \<and> vertical 2 \<and> \<not> vertical 1 \<and> \<not> vertical 3"
  unfolding vertical_def UP_def DOWN_def by simp

lemma horizontal_values: "horizontal 1 \<and> horizontal 3 \<and> \<not> horizontal 0 \<and> \<not> horizontal 2"
  unfolding horizontal_def LEFT_def RIGHT_def by simp

lemma perpendicular_parity:
  assumes "a = 0 \<or> a = 1 \<or> a = 2 \<or> a = 3" and "b = 0 \<or> b = 1 \<or> b = 2 \<or> b = 3"
  shows "perpendicular a b = (a mod 2 \<noteq> b mod 2)"
  using assms vertical_values horizontal_values
  unfolding perpendicular_def by (elim disjE) simp_all

lemma handle_parity:
  assumes "DIRECTIONS k = Some dir"
  shows "SnakeHead_handle k ob
           = Inr (if dir mod 2 \<noteq> direction ob mod 2 then ob\<lparr> direction := dir \<rparr> else ob)"
proof -
  have m: "direction ob mod 2 = 0 \<or> direction ob mod 2 = 1" by presburger
  from assms consider "k = K_UP" "dir = 0" | "k = K_RIGHT" "dir = 1"
    | "k = K_DOWN" "dir = 2" | "k = K_LEFT" "dir = 3"
    by (auto simp: DIRECTIONS_cases)
  then show ?thesis
  proof cases
    case 1 with m show ?thesis by (auto simp: SnakeHead_handle_def DIRECTIONS_def)
  next
    case 2 with m show ?thesis by (auto simp: SnakeHead_handle_def DIRECTIONS_def)
  next
    case 3 with m show ?thesis by (auto simp: SnakeHead_handle_def DIRECTIONS_def)
  next
    case 4 with m show ?thesis by (auto simp: SnakeHead_handle_def DIRECTIONS_def)
  qed
qed

text \<open>
  C4. For every head direction \<open>d\<close> among UP, RIGHT, DOWN, LEFT and every bound
  direction key \<open>k\<close>, \<open>SnakeHead.handle(k)\<close> sets the direction to the one bound to
  \<open>k\<close> if that direction is perpendicular to \<open>d\<close>, and leaves the head as it is
  otherwise; so the direction changes if and only if the requested one is
  perpendicular.
\<close>

theorem SnakeHead_handle_perpendicular:
  assumes "direction ob \<in> {UP, RIGHT, DOWN, LEFT}" and "DIRECTIONS k = Some dir"
  shows "SnakeHead_handle k ob
           = Inr (if perpendicular dir (direction ob) then ob\<lparr> direction := dir \<rparr> else ob) \<and>
         (direction (projr (SnakeHead_handle k ob)) \<noteq> direction ob)
           = perpendicular dir (direction ob)"
proof -
  have d: "dir = 0 \<or> dir = 1 \<or> dir = 2 \<or> dir = 3"
    using assms(2) by (auto simp: DIRECTIONS_cases)
  have o: "direction ob = 0 \<or> direction ob = 1 \<or> direction ob = 2 \<or> direction ob = 3"
    using assms(1) by (simp add: UP_def RIGHT_def DOWN_def LEFT_def)
  have p: "perpendicular dir (direction ob) = (dir mod 2 \<noteq> direction ob mod 2)"
    by (rule perpendicular_parity [OF d o])
  have ne: "dir mod 2 \<noteq> direction ob mod 2 \<Longrightarrow> dir \<noteq> direction ob" by auto
  show ?thesis
    unfolding handle_parity [OF assms(2)] p using ne by simp
qed

theorem SnakeHead_handle_perpendicular_witness:
  "direction right_head \<in> {UP, RIGHT, DOWN, LEFT} \<and>
   DIRECTIONS K_LEFT = Some LEFT \<and> DIRECTIONS K_UP = Some UP \<and>
   direction right_head = RIGHT \<and>
   SnakeHead_handle K_LEFT right_head = Inr right_head \<and>
   SnakeHead_handle K_UP right_head = Inr (right_head\<lparr> direction := UP \<rparr>)"
proof -
  have r: "direction right_head = RIGHT"
    by (simp add: right_head_def SnakePart_init_def GameObject_init_def RIGHT_def)
  then have m: "direction right_head \<in> {UP, RIGHT, DOWN, LEFT}" by simp
  have kl: "DIRECTIONS K_LEFT = Some LEFT" by (simp add: DIRECTIONS_def LEFT_def)
  have ku: "DIRECTIONS K_UP = Some UP" by (simp add: DIRECTIONS_def UP_def)
  have pl: "\<not> perpendicular LEFT RIGHT"
    using vertical_values horizontal_values
    by (simp add: perpendicular_def LEFT_def RIGHT_def)
  have pu: "perpendicular UP RIGHT"
    using vertical_values horizontal_values
    by (simp add: perpendicular_def UP_def RIGHT_def)
  from SnakeHead_handle_perpendicular [OF m kl] SnakeHead_handle_perpendicular [OF m ku]
  show ?thesis using r m kl ku pl pu by simp
qed







lemma events_loop_skipped:
  "list_all skipped pre \<Longrightarrow> events_loop hs (pre @ evs) g = events_loop hs evs g"
proof (induction pre)
  case Nil
  then show ?case by simp
next
  case (Cons ev pre)
  then show ?case by (cases ev) simp_all
qed

text \<open>
  C10. For every queue of pending events, \<open>Game.handle_events\<close> dispatches at most
  one key-down event. If the first event that is not passed over is the key-down
  event of a bound key \<open>k\<close>, the result is that of the handlers of \<open>k\<close>, called once
  with \<open>k\<close>, whatever events follow it: they reach no handler. The queue is empty
  afterwards. If a \<open>QUIT\<close> event comes first the process exits, and if every event is
  passed over the game is unchanged. Handlers and game state are arbitrary.
\<close>

theorem handle_events_first_bound_key:
  "(list_all skipped pre \<and> k \<in> set KEYS_values \<longrightarrow>
      Game_handle_events hs (pre @ KEYDOWN k # post) g
        = map_sum id (\<lambda>g'. (g', [])) (run_handlers (hs k) k g)) \<and>
   (list_all skipped pre \<longrightarrow>
      Game_handle_events hs (pre @ QUIT # post) g = Inl SystemExit) \<and>
   (list_all skipped q \<longrightarrow> Game_handle_events hs q g = Inr (g, []))"
proof (intro conjI impI)
  assume "list_all skipped pre \<and> k \<in> set KEYS_values"
  then show "Game_handle_events hs (pre @ KEYDOWN k # post) g
        = map_sum id (\<lambda>g'. (g', [])) (run_handlers (hs k) k g)"
    by (simp add: Game_handle_events_def events_loop_skipped split: sum.splits)
next
  assume "list_all skipped pre"
  then show "Game_handle_events hs (pre @ QUIT # post) g = Inl SystemExit"
    by (simp add: Game_handle_events_def events_loop_skipped)
next
  assume "list_all skipped q"
  from events_loop_skipped [OF this, of hs "[]" g]
  show "Game_handle_events hs q g = Inr (g, [])"
    by (simp add: Game_handle_events_def)
qed

theorem handle_events_first_bound_key_witness:
  "list_all skipped [KEYDOWN (K_OTHER 5), KEYUP K_UP] \<and> K_UP \<in> set KEYS_values \<and>
   Game_handle_events log_handlers
     [KEYDOWN (K_OTHER 5), KEYUP K_UP, KEYDOWN K_UP, KEYDOWN K_LEFT, QUIT] []
     = Inr ([K_UP], []) \<and>
   Game_handle_events log_handlers [KEYUP K_UP, QUIT, KEYDOWN K_UP] [] = Inl SystemExit \<and>
   Game_handle_events log_handlers [KEYDOWN (K_OTHER 5), KEYUP K_UP] [] = Inr ([], [])"
  using handle_events_first_bound_key
          [of "[KEYDOWN (K_OTHER 5), KEYUP K_UP]" K_UP log_handlers "[KEYDOWN K_LEFT, QUIT]"
              "[]" "[KEYDOWN (K_OTHER 5), KEYUP K_UP]"]
        handle_events_first_bound_key
          [of "[KEYUP K_UP]" K_UP log_handlers "[KEYDOWN K_UP]" "[]" "[]"]
  by (simp add: KEYS_values_def log_handlers_def)

lemma Snake_update_zero:
  "parts s = hd0 # rest \<Longrightarrow> speed hd0 = 0 \<Longrightarrow> Snake_update stg dt s = Inl ZeroDivisionError"
  by (simp add: Snake_update_def)

lemma Snake_init_Cons:
  "\<exists>rest. parts (Snake_init stg px py off spd dir len)
            = SnakePart_init stg SnakeHead px py off spd dir # rest"
proof -
  let ?s = "Snake_init stg px py off spd dir len"
  have "length (parts ?s) = nat len + 2" by (rule Snake_init_length)
  then obtain h0 r0 where hr: "parts ?s = h0 # r0" by (cases "parts ?s") auto
  with Snake_init_head [of stg px py off spd dir len] show ?thesis by simp
qed

lemma randrange_ok:
  "0 < step \<Longrightarrow> start < stop \<Longrightarrow> \<exists>v. randrange start stop step r = Inr v"
proof -
  assume a: "0 < step" "start < stop"
  then have "step \<le> stop - start + step - 1" by simp
  from zdiv_mono1 [OF this a(1)] a(1) have "1 \<le> (stop - start + step - 1) div step"
    by simp
  then show ?thesis using a by (simp add: randrange_def Let_def)
qed

text \<open>
  C9, as stated, at the shipped settings with the snake speed set to 0: the game is
  constructed without any error, and the first pass of the game loop raises the
  division by zero in \<open>Snake.update\<close>.
\<close>

theorem zero_speed_startup_counterexample:
  "\<not> isl (SnakeGame_init zero_speed_settings 3 4) \<and>
   Game_run zero_speed_settings [([], [], 1 / 10)]
       (projr (SnakeGame_init zero_speed_settings 3 4))
     = Some (Inl ZeroDivisionError)"
  unfolding zero_speed_settings_def by code_simp

text \<open>
  C9 (amended). A configuration with snake speed 0 (and a positive grid size below
  both window dimensions) is not rejected at startup: \<open>SnakeGame\<close> is constructed,
  whatever the random choices, and the division by zero is raised by
  \<open>Snake.update\<close>, hence by \<open>Game.update\<close>, in the game loop.
\<close>

theorem zero_speed_not_rejected:
  assumes "SNAKE_SPEED stg = 0" and "0 < GRID_SIZE stg"
    and "GRID_SIZE stg < WINDOW_WIDTH stg" and "GRID_SIZE stg < WINDOW_HEIGHT stg"
  shows "\<exists>g. SnakeGame_init stg r1 r2 = Inr g \<and>
           Snake_update stg dt (g_snake g) = Inl ZeroDivisionError \<and>
           Game_update stg dt g = Inl ZeroDivisionError"
proof -
  from randrange_ok [of "GRID_SIZE stg" 0 "WINDOW_WIDTH stg - GRID_SIZE stg" r1] assms
  obtain ax where ax: "randrange 0 (WINDOW_WIDTH stg - GRID_SIZE stg) (GRID_SIZE stg) r1 = Inr ax"
    by auto
  from randrange_ok [of "GRID_SIZE stg" 0 "WINDOW_HEIGHT stg - GRID_SIZE stg" r2] assms
  obtain ay where ay: "randrange 0 (WINDOW_HEIGHT stg - GRID_SIZE stg) (GRID_SIZE stg) r2 = Inr ay"
    by auto
  let ?off = "(WINDOW_WIDTH stg, WINDOW_HEIGHT stg)"
  let ?s = "Snake_init stg (SNAKE_INIT_X stg) (SNAKE_INIT_Y stg) ?off (SNAKE_SPEED stg) 1
              (SNAKE_INIT_LENGTH stg)"
  let ?g = "\<lparr> game_over = False, score = 0, g_snake = ?s,
              g_apple = Apple_init stg ax ay ?off \<rparr>"
  have i: "SnakeGame_init stg r1 r2 = Inr ?g"
    using assms(2) ax ay by (simp add: SnakeGame_init_def Let_def)
  from Snake_init_Cons [of stg "SNAKE_INIT_X stg" "SNAKE_INIT_Y stg" ?off "SNAKE_SPEED stg" 1
      "SNAKE_INIT_LENGTH stg"]
  obtain rest where r: "parts ?s = SnakePart_init stg SnakeHead (SNAKE_INIT_X stg) (SNAKE_INIT_Y stg)
      ?off (SNAKE_SPEED stg) 1 # rest" by blast
  have "speed (SnakePart_init stg SnakeHead (SNAKE_INIT_X stg) (SNAKE_INIT_Y stg)
      ?off (SNAKE_SPEED stg) 1) = 0"
    using assms(1) by (simp add: SnakePart_init_def GameObject_init_def)
  from Snake_update_zero [OF r this]
  have u: "Snake_update stg dt ?s = Inl ZeroDivisionError" .
  then have "Game_update stg dt ?g = Inl ZeroDivisionError"
    by (simp add: Game_update_def)
  with i u show ?thesis by simp
qed

theorem zero_speed_not_rejected_witness:
  "SNAKE_SPEED zero_speed_settings = 0 \<and> 0 < GRID_SIZE zero_speed_settings \<and>
   GRID_SIZE zero_speed_settings < WINDOW_WIDTH zero_speed_settings \<and>
   GRID_SIZE zero_speed_settings < WINDOW_HEIGHT zero_speed_settings \<and>
   (\<exists>g. SnakeGame_init zero_speed_settings 3 4 = Inr g \<and>
        Snake_update zero_speed_settings (1 / 10) (g_snake g) = Inl ZeroDivisionError \<and>
        Game_update zero_speed_settings (1 / 10) g = Inl ZeroDivisionError)"
proof -
  have h: "SNAKE_SPEED zero_speed_settings = 0" "0 < GRID_SIZE zero_speed_settings"
    "GRID_SIZE zero_speed_settings < WINDOW_WIDTH zero_speed_settings"
    "GRID_SIZE zero_speed_settings < WINDOW_HEIGHT zero_speed_settings"
    by (simp_all add: zero_speed_settings_def settings_py_def)
  from zero_speed_not_rejected [OF h, of 3 4 "1 / 10"] h show ?thesis by simp
qed

lemma randrange_range:
  "randrange 0 stop 1 r = Inr v \<Longrightarrow> 0 \<le> v \<and> v < stop"
  by (auto simp: randrange_def Let_def split: if_splits)

lemma randrange_aligned:
  "randrange 0 stop step r = Inr v \<Longrightarrow> v mod step = 0"
  by (auto simp: randrange_def Let_def split: if_splits)

lemma Apple_respawn_in_bounds:
  assumes "Apple_respawn r ob = Inr ob'"
  shows "0 \<le> rect_left (bounds ob') \<and> rect_right (bounds ob') < fst (offset ob') \<and>
         0 \<le> rect_top (bounds ob') \<and> rect_bottom (bounds ob') < snd (offset ob')"
proof -
  from assms obtain nx ny where
    nx: "randrange 0 (fst (offset ob) - rect_w (bounds ob)) 1 (fst r) = Inr nx" and
    ny: "randrange 0 (snd (offset ob) - rect_h (bounds ob)) 1 (snd r) = Inr ny" and
    ob': "ob' = ob\<lparr> bounds := (bounds ob)\<lparr> rect_x := nx, rect_y := ny \<rparr> \<rparr>"
    by (auto simp: Apple_respawn_def split: sum.splits)
  from randrange_range [OF nx] randrange_range [OF ny] show ?thesis
    by (simp add: ob' rect_left_def rect_right_def rect_top_def rect_bottom_def)
qed

lemma get_apple_loop_no_overlap:
  "get_apple_loop rs s ob = Some (Inr ob') \<Longrightarrow> \<not> Snake_colliderect s (bounds ob')"
proof (induction rs arbitrary: ob)
  case Nil
  then show ?case by (simp split: if_splits)
next
  case (Cons r rs)
  then show ?case by (auto split: if_splits sum.splits)
qed

lemma SnakeGame_init_apple_aligned:
  assumes "SnakeGame_init stg r1 r2 = Inr g"
  shows "grid_aligned stg (bounds (g_apple g))"
proof -
  from assms obtain ax ay where
    ax: "randrange 0 (WINDOW_WIDTH stg - GRID_SIZE stg) (GRID_SIZE stg) r1 = Inr ax" and
    ay: "randrange 0 (WINDOW_HEIGHT stg - GRID_SIZE stg) (GRID_SIZE stg) r2 = Inr ay" and
    g: "bounds (g_apple g) = Rect ax ay (GRID_SIZE stg) (GRID_SIZE stg)"
    by (auto simp: SnakeGame_init_def Let_def Apple_init_def GameObject_init_def
          split: if_splits sum.splits)
  from randrange_aligned [OF ax] randrange_aligned [OF ay] show ?thesis
    by (simp add: grid_aligned_def g Rect_def)
qed

text \<open>
  C8. Positions chosen by \<open>Apple.respawn()\<close> lie inside the playfield, and the loop of
  \<open>get_apple\<close> ends only with the apple off the snake (the two lemmas above), but
  they are not grid-aligned: \<open>respawn\<close> calls \<open>randrange\<close> without the step
  \<open>GRID_SIZE\<close> that \<open>SnakeGame.__init__\<close> passes for the first position of the
  apple. With the apple under the head and the random choices 5 and 7, \<open>get_apple\<close>
  leaves the apple at (5, 7).
\<close>

theorem respawn_off_grid:
  "grid_aligned settings_py (bounds (g_apple eaten_game)) \<and>
   check_apple_snake_collision eaten_game = Inr True \<and>
   Apple_respawn (5, 7) (g_apple eaten_game)
     = Inr ((g_apple eaten_game)\<lparr> bounds := Rect 5 7 10 10 \<rparr>) \<and>
   map_option (map_sum id (bounds \<circ> g_apple)) (SnakeGame_get_apple [(5, 7)] eaten_game)
     = Some (Inr (Rect 5 7 10 10)) \<and>
   \<not> grid_aligned settings_py (Rect 5 7 10 10)"
  unfolding eaten_game_def right_game_def right_snake_def by code_simp

end
